theory Spec2Isabelle
  imports Main "HOL-Library.Word"
begin

unbundle bit_operations_syntax

section \<open>Whisper v5 message element (whisper/whisper05/message.go)\<close>

subsection \<open>Data model\<close>

type_synonym byte = "8 word"
type_synonym bytes = "byte list"
type_synonym uint32 = "32 word"
type_synonym uint64 = "64 word"

text \<open>\<^verbatim>\<open>TopicType\<close> is a fixed 4-byte tag and \<^verbatim>\<open>common.Hash\<close> a fixed 32-byte array;
  both are kept as words of the same width. The zero hash \<^verbatim>\<open>common.Hash{}\<close> is \<open>0\<close>.\<close>

type_synonym TopicType = "32 word"
type_synonym Hash = "256 word"

text \<open>\<^verbatim>\<open>ecdsa.PublicKey\<close> holds the point \<open>(X, Y)\<close>, \<^verbatim>\<open>ecdsa.PrivateKey\<close> embeds the
  public key and adds the scalar \<open>D\<close>; the curve is always secp256k1. The Go code handles
  both through pointers, so a possibly-nil key is an \<open>option\<close>.\<close>

datatype PublicKey = PublicKey int int
datatype PrivateKey = PrivateKey PublicKey int

text \<open>Errors returned through Go's \<^verbatim>\<open>error\<close> result. \<open>ErrExternal\<close> stands for any error
  produced inside a library primitive (crypto, AES, GCM, the RNG).\<close>

datatype error =
    ErrInvalidEnvelopeVersion uint64
  | ErrInvalidPublicKey
  | ErrInvalidSymmetricKey
  | ErrSaltGeneration
  | ErrInvalidKeyDerived
  | ErrOversizedMessage
  | ErrNeitherDstNorKey
  | ErrWrongNonceSize
  | ErrExternal nat

text \<open>Run-time panics: an index or slice expression out of range, and the explicit
  \<^verbatim>\<open>panic\<close> of \<^verbatim>\<open>appendPadding\<close>. A function that can panic returns \<open>panic + result\<close>.\<close>

datatype panic = IndexOutOfRange | PaddingAlgorithmPanic

text \<open>\<^verbatim>\<open>MessageParams\<close>. \<^verbatim>\<open>KeySym\<close> and \<^verbatim>\<open>Padding\<close> are slices tested against \<^verbatim>\<open>nil\<close>,
  hence options. The \<^verbatim>\<open>PoW float64\<close> field is read only by \<^verbatim>\<open>Envelope.Seal\<close> and is left
  out.\<close>

record MessageParams =
  TTL :: uint32
  Src :: "PrivateKey option"
  Dst :: "PublicKey option"
  KeySym :: "bytes option"
  Topic :: TopicType
  WorkTime :: uint32
  Payload :: bytes
  Padding :: "bytes option"

record SentMessage =
  Raw :: bytes

text \<open>\<^verbatim>\<open>ReceivedMessage\<close>; the fields carry the prefix \<open>rm_\<close> because several of them share
  their name with a field of \<^verbatim>\<open>MessageParams\<close>. The \<^verbatim>\<open>PoW float64\<close> field is left out.\<close>

record ReceivedMessage =
  rm_Raw :: bytes
  rm_Payload :: bytes
  rm_Padding :: bytes
  rm_Signature :: bytes
  rm_Sent :: uint32
  rm_TTL :: uint32
  rm_Src :: "PublicKey option"
  rm_Dst :: "PublicKey option"
  rm_Topic :: TopicType
  rm_TopicKeyHash :: Hash
  rm_EnvelopeHash :: Hash
  rm_EnvelopeVersion :: uint64

subsection \<open>Constants\<close>

text \<open>Modelled from the spec: the constant block of the package (doc.go) is not part of
  the sources at hand. The flags byte keeps \<open>padSizeLen\<close> in bits 0-1 and the
  \<open>signed\<close> flag in bit 2; \<open>signatureLength = 65\<close>, \<open>aesKeyLength = 32\<close>,
  \<open>saltLength = 12\<close>, both padding limits are 256, \<open>msgMaxLength = 262144\<close>,
  \<open>DefaultTTL = 50\<close>, and the only envelope version is 0.\<close>

definition paddingMask :: byte where "paddingMask = 3"
definition signatureFlag :: byte where "signatureFlag = 4"
definition signatureLength :: nat where "signatureLength = 65"
definition aesKeyLength :: nat where "aesKeyLength = 32"
definition saltLength :: nat where "saltLength = 12"
definition padSizeLimitLower :: nat where "padSizeLimitLower = 256"
definition padSizeLimitUpper :: nat where "padSizeLimitUpper = 256"
definition msgMaxLength :: nat where "msgMaxLength = 262144"
definition DefaultTTL :: uint32 where "DefaultTTL = 50"
definition EnvelopeVersion :: uint64 where "EnvelopeVersion = 0"

subsection \<open>Library primitives and the environment\<close>

text \<open>Everything \<^verbatim>\<open>message.go\<close> calls outside itself is a field of the record \<open>ext\<close>:
  the primitives of \<^verbatim>\<open>crypto\<close>, \<^verbatim>\<open>crypto/aes\<close>, \<^verbatim>\<open>crypto/cipher\<close>, \<^verbatim>\<open>pbkdf2\<close>, the
  random source \<^verbatim>\<open>crypto/rand\<close> (state \<open>'g\<close>), the two key validators and the envelope
  constructor and sealer of the package (type \<open>'env\<close>), which live in other files.

  \<^item> \<open>crypto_Sign\<close> returns Go's pair \<open>(signature, err)\<close>, because \<^verbatim>\<open>sign\<close> reads the
    signature on the path where \<open>err\<close> is not nil.
  \<^item> \<open>crand_Read n g\<close> is \<^verbatim>\<open>crand.Read\<close> on a buffer of \<open>n\<close> bytes: the bytes written,
    the error, and the next state of the source.
  \<^item> \<open>pbkdf2_Key password salt iter keyLen\<close> is \<^verbatim>\<open>pbkdf2.Key\<close> with \<^verbatim>\<open>sha256.New\<close>.
  \<^item> \<open>crypto_SigToPub\<close> yields \<open>Inl\<close> both for an error and for a panic inside the
    recovery, which \<^verbatim>\<open>Recover\<close> catches.\<close>

record ('blk, 'aead, 'env, 'g) ext =
  crypto_Keccak256 :: "bytes \<Rightarrow> bytes"
  crypto_Sign :: "bytes \<Rightarrow> PrivateKey \<Rightarrow> bytes \<times> error option"
  crypto_SigToPub :: "bytes \<Rightarrow> bytes \<Rightarrow> error + PublicKey"
  crypto_Encrypt :: "PublicKey \<Rightarrow> bytes \<Rightarrow> 'g \<Rightarrow> (error + bytes) \<times> 'g"
  crypto_Decrypt :: "PrivateKey \<Rightarrow> bytes \<Rightarrow> error + bytes"
  pbkdf2_Key :: "bytes \<Rightarrow> bytes \<Rightarrow> nat \<Rightarrow> nat \<Rightarrow> bytes"
  aes_NewCipher :: "bytes \<Rightarrow> error + 'blk"
  cipher_NewGCM :: "'blk \<Rightarrow> error + 'aead"
  aead_NonceSize :: "'aead \<Rightarrow> nat"
  aead_Seal :: "'aead \<Rightarrow> bytes \<Rightarrow> bytes \<Rightarrow> bytes"
  aead_Open :: "'aead \<Rightarrow> bytes \<Rightarrow> bytes \<Rightarrow> error + bytes"
  crand_Read :: "nat \<Rightarrow> 'g \<Rightarrow> (bytes \<times> error option) \<times> 'g"
  validatePublicKey :: "PublicKey \<Rightarrow> bool"
  validateSymmetricKey :: "bytes \<Rightarrow> bool"
  NewEnvelope :: "uint32 \<Rightarrow> TopicType \<Rightarrow> bytes \<Rightarrow> bytes \<Rightarrow> SentMessage \<Rightarrow> 'env"
  Seal :: "'env \<Rightarrow> MessageParams \<Rightarrow> 'env"

subsection \<open>Slices\<close>

text \<open>\<^verbatim>\<open>s[lo:hi]\<close> with Go's bounds check. The buffers sliced here come out of
  \<^verbatim>\<open>make\<close> with their capacity equal to their length, so the check is against the
  length.\<close>

definition subslice :: "'a list \<Rightarrow> int \<Rightarrow> int \<Rightarrow> panic + 'a list" where
  "subslice s lo hi =
     (if 0 \<le> lo \<and> lo \<le> hi \<and> hi \<le> int (length s)
      then Inr (take (nat hi - nat lo) (drop (nat lo) s))
      else Inl IndexOutOfRange)"

text \<open>\<^verbatim>\<open>copy(dst, src)\<close>: the first \<open>min (len dst) (len src)\<close> elements of \<open>dst\<close> are
  overwritten.\<close>

definition copy :: "'a list \<Rightarrow> 'a list \<Rightarrow> 'a list" where
  "copy dst src = take (length dst) src @ drop (length src) dst"

text \<open>The content of a zeroed buffer of \<open>n\<close> bytes after a read wrote \<open>bs\<close> into it.\<close>

definition filled :: "nat \<Rightarrow> bytes \<Rightarrow> bytes" where
  "filled n bs = copy (replicate n 0) bs"

subsection \<open>Flags\<close>

definition isMessageSigned :: "byte \<Rightarrow> bool" where
  "isMessageSigned flags = ((flags AND signatureFlag) \<noteq> 0)"

definition isMessagePadded :: "byte \<Rightarrow> bool" where
  "isMessagePadded flags = ((flags AND paddingMask) \<noteq> 0)"

definition isSymmetricEncryption :: "ReceivedMessage \<Rightarrow> bool" where
  "isSymmetricEncryption self = (rm_TopicKeyHash self \<noteq> 0)"

definition isAsymmetricEncryption :: "ReceivedMessage \<Rightarrow> bool" where
  "isAsymmetricEncryption self = (rm_Dst self \<noteq> None)"

subsection \<open>Key derivation\<close>

text \<open>Go's pair \<open>(derivedKey, err)\<close>; the nil slice is \<open>[]\<close>.\<close>

definition DeriveOneTimeKey ::
  "('blk, 'aead, 'env, 'g) ext \<Rightarrow> bytes \<Rightarrow> bytes \<Rightarrow> uint64 \<Rightarrow> bytes \<times> error option" where
  "DeriveOneTimeKey E key salt version =
     (if version = 0 then (pbkdf2_Key E key salt 16 aesKeyLength, None)
      else ([], Some (ErrInvalidEnvelopeVersion version)))"

subsection \<open>Signing\<close>

text \<open>\<^verbatim>\<open>SentMessage.sign\<close>. Reading \<^verbatim>\<open>self.Raw[0]\<close> of an empty buffer panics. On the
  guard branch the source writes a log line and returns the named result \<open>err\<close>, which
  is still nil. The signature is appended and the flag set on the branch
  \<^verbatim>\<open>err != nil\<close>.\<close>

definition sign ::
  "('blk, 'aead, 'env, 'g) ext \<Rightarrow> SentMessage \<Rightarrow> PrivateKey
     \<Rightarrow> panic + (error option \<times> SentMessage)" where
  "sign E self key =
     (case Raw self of
        [] \<Rightarrow> Inl IndexOutOfRange
      | flags # _ \<Rightarrow>
          if isMessageSigned flags then Inr (None, self)
          else
            let hash = crypto_Keccak256 E (Raw self);
                (signature, err) = crypto_Sign E hash key
            in if err \<noteq> None
               then let raw = Raw self @ signature
                    in Inr (err, self\<lparr>Raw := raw[0 := (raw ! 0) OR signatureFlag]\<rparr>)
               else Inr (err, self))"

subsection \<open>Building the plaintext\<close>

text \<open>\<^verbatim>\<open>SentMessage.appendPadding\<close>. \<open>buf\<close> is a zeroed buffer of \<open>padSize\<close> bytes whose
  tail \<^verbatim>\<open>buf[1:]\<close> the random source fills (its error is ignored by the source), whose
  first byte is then set to the size, and whose tail is overwritten by the caller's
  padding when there is one.\<close>

definition appendPadding ::
  "('blk, 'aead, 'env, 'g) ext \<Rightarrow> MessageParams \<Rightarrow> SentMessage \<Rightarrow> 'g
     \<Rightarrow> panic + (SentMessage \<times> 'g)" where
  "appendPadding E params self g =
     (let total = length (Payload params) + 1;
          total = (if Src params \<noteq> None then total + signatureLength else total);
          padChunk = (if total \<le> padSizeLimitLower then padSizeLimitLower
                      else padSizeLimitUpper);
          odd = total mod padChunk
      in if odd > 0 then
           let padSize = padChunk - odd
           in if padSize > 255 then Inl PaddingAlgorithmPanic
              else
                let ((rnd, _), g') = crand_Read E (padSize - 1) g;
                    buf = (0 :: byte) # filled (padSize - 1) rnd;
                    buf = buf[0 := of_nat padSize];
                    buf = (case Padding params of
                             None \<Rightarrow> buf
                           | Some padding \<Rightarrow> hd buf # copy (tl buf) padding);
                    raw = Raw self @ buf
                in Inr (self\<lparr>Raw := raw[0 := (raw ! 0) OR 1]\<rparr>, g')
         else Inr (self, g))"

text \<open>\<^verbatim>\<open>NewSentMessage\<close>: one random byte with the padding and signature bits cleared,
  then the padding, then the payload.\<close>

definition NewSentMessage ::
  "('blk, 'aead, 'env, 'g) ext \<Rightarrow> MessageParams \<Rightarrow> 'g \<Rightarrow> panic + (SentMessage \<times> 'g)" where
  "NewSentMessage E params g =
     (let ((rnd, _), g1) = crand_Read E 1 g;
          buf = filled 1 rnd;
          flags = buf ! 0;
          flags = flags AND NOT paddingMask;
          flags = flags AND NOT signatureFlag;
          msg = \<lparr>Raw = [flags]\<rparr>
      in case appendPadding E params msg g1 of
           Inl p \<Rightarrow> Inl p
         | Inr (msg, g2) \<Rightarrow> Inr (msg\<lparr>Raw := Raw msg @ Payload params\<rparr>, g2))"

subsection \<open>Encryption and wrapping\<close>

definition encryptAsymmetric ::
  "('blk, 'aead, 'env, 'g) ext \<Rightarrow> SentMessage \<Rightarrow> PublicKey \<Rightarrow> 'g
     \<Rightarrow> error option \<times> SentMessage \<times> 'g" where
  "encryptAsymmetric E self key g =
     (if \<not> validatePublicKey E key then (Some ErrInvalidPublicKey, self, g)
      else case crypto_Encrypt E key (Raw self) g of
             (Inr encrypted, g') \<Rightarrow> (None, self\<lparr>Raw := encrypted\<rparr>, g')
           | (Inl err, g') \<Rightarrow> (Some err, self, g'))"

text \<open>\<^verbatim>\<open>SentMessage.encryptSymmetric\<close>; the result is Go's \<open>(salt, nonce, err)\<close> together
  with the message and the random source.\<close>

definition encryptSymmetric ::
  "('blk, 'aead, 'env, 'g) ext \<Rightarrow> SentMessage \<Rightarrow> bytes \<Rightarrow> 'g
     \<Rightarrow> (bytes \<times> bytes \<times> error option) \<times> SentMessage \<times> 'g" where
  "encryptSymmetric E self key g =
     (if \<not> validateSymmetricKey E key then (([], [], Some ErrInvalidSymmetricKey), self, g)
      else
        let ((rnd, err), g1) = crand_Read E saltLength g;
            salt = filled saltLength rnd
        in if err \<noteq> None then ((salt, [], err), self, g1)
           else if \<not> validateSymmetricKey E salt
           then ((salt, [], Some ErrSaltGeneration), self, g1)
           else
             case DeriveOneTimeKey E key salt EnvelopeVersion of
               (derivedKey, Some err) \<Rightarrow> ((salt, [], Some err), self, g1)
             | (derivedKey, None) \<Rightarrow>
                 if \<not> validateSymmetricKey E derivedKey
                 then ((salt, [], Some ErrInvalidKeyDerived), self, g1)
                 else
                   (case aes_NewCipher E derivedKey of
                      Inl err \<Rightarrow> ((salt, [], Some err), self, g1)
                    | Inr block \<Rightarrow>
                        (case cipher_NewGCM E block of
                           Inl err \<Rightarrow> ((salt, [], Some err), self, g1)
                         | Inr aesgcm \<Rightarrow>
                             let ((rnd, err), g2) = crand_Read E (aead_NonceSize E aesgcm) g1;
                                 nonce = filled (aead_NonceSize E aesgcm) rnd
                             in if err \<noteq> None then ((salt, nonce, err), self, g2)
                                else ((salt, nonce, None),
                                      self\<lparr>Raw := aead_Seal E aesgcm nonce (Raw self)\<rparr>,
                                      g2))))"

text \<open>\<^verbatim>\<open>SentMessage.Wrap\<close>; the result is Go's \<open>(envelope, err)\<close> together with the
  message and the random source. The first component of the pair is \<open>None\<close> when no
  envelope is produced.\<close>

definition Wrap ::
  "('blk, 'aead, 'env, 'g) ext \<Rightarrow> SentMessage \<Rightarrow> MessageParams \<Rightarrow> 'g
     \<Rightarrow> panic + (('env option \<times> error option) \<times> SentMessage \<times> 'g)" where
  "Wrap E self options g =
     (let options = (if TTL options = 0 then options\<lparr>TTL := DefaultTTL\<rparr> else options);
          signed = (case Src options of
                      None \<Rightarrow> Inr (None, self)
                    | Some src \<Rightarrow> sign E self src)
      in case signed of
           Inl p \<Rightarrow> Inl p
         | Inr (Some err, self) \<Rightarrow> Inr ((None, Some err), self, g)
         | Inr (None, self) \<Rightarrow>
             if length (Raw self) > msgMaxLength
             then Inr ((None, Some ErrOversizedMessage), self, g)
             else
               let ((salt, nonce, err), self, g) =
                     (case Dst options of
                        Some dst \<Rightarrow>
                          (let (err, self, g) = encryptAsymmetric E self dst g
                           in (([], [], err), self, g))
                      | None \<Rightarrow>
                          (case KeySym options of
                             Some keySym \<Rightarrow> encryptSymmetric E self keySym g
                           | None \<Rightarrow> (([], [], Some ErrNeitherDstNorKey), self, g)))
               in (case err of
                     None \<Rightarrow>
                       Inr ((Some (Seal E (NewEnvelope E (TTL options) (Topic options)
                                             salt nonce self) options),
                             None), self, g)
                   | Some e \<Rightarrow> Inr ((None, Some e), self, g)))"

subsection \<open>Decryption\<close>

definition decryptSymmetric ::
  "('blk, 'aead, 'env, 'g) ext \<Rightarrow> ReceivedMessage \<Rightarrow> bytes \<Rightarrow> bytes \<Rightarrow> bytes
     \<Rightarrow> error option \<times> ReceivedMessage" where
  "decryptSymmetric E self key salt nonce =
     (case DeriveOneTimeKey E key salt (rm_EnvelopeVersion self) of
        (derivedKey, Some err) \<Rightarrow> (Some err, self)
      | (derivedKey, None) \<Rightarrow>
          (case aes_NewCipher E derivedKey of
             Inl err \<Rightarrow> (Some err, self)
           | Inr block \<Rightarrow>
               (case cipher_NewGCM E block of
                  Inl err \<Rightarrow> (Some err, self)
                | Inr aesgcm \<Rightarrow>
                    if length nonce \<noteq> aead_NonceSize E aesgcm
                    then (Some ErrWrongNonceSize, self)
                    else
                      (case aead_Open E aesgcm nonce (rm_Raw self) of
                         Inl err \<Rightarrow> (Some err, self)
                       | Inr decrypted \<Rightarrow> (None, self\<lparr>rm_Raw := decrypted\<rparr>)))))"

definition decryptAsymmetric ::
  "('blk, 'aead, 'env, 'g) ext \<Rightarrow> ReceivedMessage \<Rightarrow> PrivateKey
     \<Rightarrow> error option \<times> ReceivedMessage" where
  "decryptAsymmetric E self key =
     (case crypto_Decrypt E key (rm_Raw self) of
        Inr decrypted \<Rightarrow> (None, self\<lparr>rm_Raw := decrypted\<rparr>)
      | Inl err \<Rightarrow> (Some err, self))"

subsection \<open>Validation on ingress\<close>

text \<open>Modelled from the spec: \<^verbatim>\<open>bytesToIntLittleEndian\<close> lives in another file of the
  package; the spec has the padding length encoded little-endian. The result is Go's
  \<^verbatim>\<open>uint64\<close>, so the sum wraps at \<open>2 ^ 64\<close>.\<close>

fun bytesToIntLittleEndian :: "bytes \<Rightarrow> nat" where
  "bytesToIntLittleEndian [] = 0"
| "bytesToIntLittleEndian (b # bs) = (unat b + 256 * bytesToIntLittleEndian bs) mod 2 ^ 64"

text \<open>\<^verbatim>\<open>ReceivedMessage.extractPadding\<close>: Go's \<open>(paddingSize, ok)\<close> and the message, whose
  \<^verbatim>\<open>Padding\<close> field is set on success.\<close>

definition extractPadding ::
  "ReceivedMessage \<Rightarrow> int \<Rightarrow> panic + ((int \<times> bool) \<times> ReceivedMessage)" where
  "extractPadding self end =
     (case rm_Raw self of
        [] \<Rightarrow> Inl IndexOutOfRange
      | flags # _ \<Rightarrow>
          let sz = int (unat (flags AND paddingMask))
          in if sz \<noteq> 0 then
               (case subslice (rm_Raw self) 1 (1 + sz) of
                  Inl p \<Rightarrow> Inl p
                | Inr szBytes \<Rightarrow>
                    let paddingSize = int (bytesToIntLittleEndian szBytes)
                    in if paddingSize < sz \<or> paddingSize + 1 > end
                       then Inr ((0, False), self)
                       else
                         (case subslice (rm_Raw self) (1 + sz) (1 + paddingSize) of
                            Inl p \<Rightarrow> Inl p
                          | Inr padding \<Rightarrow>
                              Inr ((paddingSize, True), self\<lparr>rm_Padding := padding\<rparr>)))
             else Inr ((0, True), self))"

text \<open>\<^verbatim>\<open>ReceivedMessage.hash\<close> and \<^verbatim>\<open>Recover\<close>. A panic inside \<^verbatim>\<open>Recover\<close> is caught by
  its deferred \<^verbatim>\<open>recover()\<close>, and the function then returns nil.\<close>

definition hash ::
  "('blk, 'aead, 'env, 'g) ext \<Rightarrow> ReceivedMessage \<Rightarrow> panic + bytes" where
  "hash E self =
     (case rm_Raw self of
        [] \<Rightarrow> Inl IndexOutOfRange
      | flags # _ \<Rightarrow>
          if isMessageSigned flags then
            (case subslice (rm_Raw self) 0 (int (length (rm_Raw self)) - int signatureLength) of
               Inl p \<Rightarrow> Inl p
             | Inr body \<Rightarrow> Inr (crypto_Keccak256 E body))
          else Inr (crypto_Keccak256 E (rm_Raw self)))"

definition Recover ::
  "('blk, 'aead, 'env, 'g) ext \<Rightarrow> ReceivedMessage \<Rightarrow> PublicKey option" where
  "Recover E self =
     (case hash E self of
        Inl p \<Rightarrow> None
      | Inr h \<Rightarrow>
          (case crypto_SigToPub E h (rm_Signature self) of
             Inl err \<Rightarrow> None
           | Inr pub \<Rightarrow> Some pub))"

text \<open>\<^verbatim>\<open>ReceivedMessage.Validate\<close>: the boolean result and the message with the fields
  extracted so far.\<close>

definition Validate ::
  "('blk, 'aead, 'env, 'g) ext \<Rightarrow> ReceivedMessage \<Rightarrow> panic + (bool \<times> ReceivedMessage)" where
  "Validate E self =
     (let end = int (length (rm_Raw self))
      in if end < 1 then Inr (False, self)
         else
           let checked =
                 (if isMessageSigned (rm_Raw self ! 0) then
                    let end = end - int signatureLength
                    in if end \<le> 1 then Inr (False, end, self)
                       else
                         (case subslice (rm_Raw self) end (int (length (rm_Raw self))) of
                            Inl p \<Rightarrow> Inl p
                          | Inr sig \<Rightarrow>
                              let self = self\<lparr>rm_Signature := sig\<rparr>;
                                  self = self\<lparr>rm_Src := Recover E self\<rparr>
                              in if rm_Src self = None then Inr (False, end, self)
                                 else Inr (True, end, self))
                  else Inr (True, end, self))
           in (case checked of
                Inl p \<Rightarrow> Inl p
              | Inr (False, end, self) \<Rightarrow> Inr (False, self)
              | Inr (True, end, self) \<Rightarrow>
                  (case extractPadding self end of
                     Inl p \<Rightarrow> Inl p
                   | Inr ((padSize, ok), self) \<Rightarrow>
                       if \<not> ok then Inr (False, self)
                       else
                         (case subslice (rm_Raw self) (1 + padSize) end of
                            Inl p \<Rightarrow> Inl p
                          | Inr payload \<Rightarrow>
                              let self = self\<lparr>rm_Payload := payload\<rparr>
                              in Inr ((isSymmetricEncryption self
                                         \<noteq> isAsymmetricEncryption self), self)))))"

subsection \<open>A concrete environment\<close>

text \<open>A small instance of \<open>ext\<close> on which the definitions above can be evaluated. Its
  key derivation writes the iteration count, little-endian, into the first four bytes of
  the derived key, so that two derivations with different counts differ; signing
  succeeds with a 65-byte signature; encryption reverses the plaintext; the random
  source is a counter.\<close>

definition demo_ext :: "(bytes, bytes, uint32 \<times> TopicType \<times> bytes \<times> bytes \<times> bytes, nat) ext" where
  "demo_ext =
     \<lparr> crypto_Keccak256 = (\<lambda>data. replicate 32 (of_nat (length data))),
       crypto_Sign = (\<lambda>hash key. (replicate 65 1, None)),
       crypto_SigToPub = (\<lambda>hash sig. Inr (PublicKey 1 2)),
       crypto_Encrypt = (\<lambda>key m g. (Inr (rev m), g)),
       crypto_Decrypt = (\<lambda>key c. if c = [] then Inl (ErrExternal 1) else Inr (rev c)),
       pbkdf2_Key = (\<lambda>password salt iter keyLen.
          copy (replicate keyLen 0)
            [of_nat iter, of_nat (iter div 256), of_nat (iter div 65536),
             of_nat (iter div 16777216)]),
       aes_NewCipher = (\<lambda>key. if length key = 32 then Inr key else Inl (ErrExternal 2)),
       cipher_NewGCM = (\<lambda>block. Inr block),
       aead_NonceSize = (\<lambda>aesgcm. 12),
       aead_Seal = (\<lambda>aesgcm nonce plaintext. rev plaintext),
       aead_Open = (\<lambda>aesgcm nonce ciphertext.
          if ciphertext = [] then Inl (ErrExternal 3) else Inr (rev ciphertext)),
       crand_Read = (\<lambda>n g. ((replicate n (of_nat g), None), g + n)),
       validatePublicKey = (\<lambda>key. True),
       validateSymmetricKey = (\<lambda>key. filter (\<lambda>b. b \<noteq> 0) key \<noteq> []),
       NewEnvelope = (\<lambda>ttl topic salt nonce msg. (ttl, topic, salt, nonce, Raw msg)),
       Seal = (\<lambda>envelope options. envelope) \<rparr>"

text \<open>The same environment with a signer that fails.\<close>

definition demo_ext_sign_fails ::
  "(bytes, bytes, uint32 \<times> TopicType \<times> bytes \<times> bytes \<times> bytes, nat) ext" where
  "demo_ext_sign_fails = demo_ext\<lparr>crypto_Sign := (\<lambda>hash key. ([], Some (ErrExternal 4)))\<rparr>"

definition demo_key :: PrivateKey where
  "demo_key = PrivateKey (PublicKey 1 2) 3"

definition s1_params :: MessageParams where
  "s1_params =
     \<lparr> TTL = 10, Src = None, Dst = None, KeySym = Some (replicate 31 0 @ [1]),
       Topic = 0xDEADBEEF, WorkTime = 1, Payload = [104, 101, 108, 108, 111],
       Padding = None \<rparr>"

definition full_params :: MessageParams where
  "full_params = s1_params\<lparr>Payload := replicate 255 65\<rparr>"

definition demo_received :: ReceivedMessage where
  "demo_received =
     \<lparr> rm_Raw = [1, 2, 7, 104, 105], rm_Payload = [], rm_Padding = [], rm_Signature = [],
       rm_Sent = 0, rm_TTL = 10, rm_Src = None, rm_Dst = None, rm_Topic = 0xDEADBEEF,
       rm_TopicKeyHash = 1, rm_EnvelopeHash = 0, rm_EnvelopeVersion = 0 \<rparr>"

subsection \<open>The padding contract in the words of the spec\<close>

text \<open>Section 4.B of the spec: \<open>total = 1 + len(payload) + (65 if signed else 0)\<close>, and
  the pad length is \<open>(target - (total mod target)) mod target\<close> with the target 256.\<close>

definition spec_total :: "MessageParams \<Rightarrow> nat" where
  "spec_total params = 1 + length (Payload params) + (if Src params \<noteq> None then 65 else 0)"

definition spec_padLength :: "MessageParams \<Rightarrow> nat" where
  "spec_padLength params = (256 - spec_total params mod 256) mod 256"

section \<open>Properties\<close>

subsection \<open>Buffers and flag bits\<close>

lemma length_copy: "length (copy dst src) = length dst"
  by (simp add: copy_def min_def)

lemma length_filled: "length (filled n bs) = n"
  by (simp add: filled_def length_copy)

lemma unat_byte_of_nat: "n < 256 \<Longrightarrow> unat (of_nat n :: byte) = n"
  by (simp add: unat_of_nat)

lemma flags_clear_padding: "(((x::byte) AND NOT paddingMask) AND NOT signatureFlag) AND paddingMask = 0"
proof -
  have "((x AND NOT 3) AND NOT 4) AND 3 = x AND (NOT 3 AND NOT 4 AND 3)"
    by (simp only: and.assoc)
  also have "(NOT 3 AND NOT 4 AND 3 :: byte) = 0" by simp
  finally show ?thesis by (simp add: paddingMask_def signatureFlag_def)
qed

lemma flags_clear_signature: "(((x::byte) AND NOT paddingMask) AND NOT signatureFlag) AND signatureFlag = 0"
proof -
  have "((x AND NOT 3) AND NOT 4) AND 4 = x AND (NOT 3 AND NOT 4 AND 4)"
    by (simp only: and.assoc)
  also have "(NOT 3 AND NOT 4 AND 4 :: byte) = 0" by simp
  finally show ?thesis by (simp add: paddingMask_def signatureFlag_def)
qed

lemma flags_set_padding: "(x::byte) AND paddingMask = 0 \<Longrightarrow> (x OR 1) AND paddingMask = 1"
  by (simp add: paddingMask_def bit.conj_disj_distrib2)

lemma flags_keep_signature: "((x::byte) OR 1) AND signatureFlag = x AND signatureFlag"
  by (simp add: signatureFlag_def bit.conj_disj_distrib2)

subsection \<open>Padding on the way out\<close>

lemma total_spec_total:
  "(if Src params \<noteq> None then length (Payload params) + 1 + signatureLength
    else length (Payload params) + 1) = spec_total params"
  by (simp add: spec_total_def signatureLength_def)

lemma appendPadding_unpadded:
  assumes "spec_total params mod 256 = 0"
  shows "appendPadding E params self g = Inr (self, g)"
  unfolding appendPadding_def Let_def total_spec_total padSizeLimitLower_def
    padSizeLimitUpper_def if_cancel
  using assms by simp

lemma appendPadding_padded:
  assumes "spec_total params mod 256 \<noteq> 0"
  shows "\<exists>tail g'. length tail = 255 - spec_total params mod 256 \<and>
           appendPadding E params self g =
             Inr (self\<lparr>Raw := (Raw self @ of_nat (256 - spec_total params mod 256) # tail)
                                [0 := ((Raw self @ of_nat (256 - spec_total params mod 256) # tail) ! 0) OR 1]\<rparr>, g')"
proof -
  define ps where "ps = 256 - spec_total params mod 256"
  have pos: "0 < spec_total params mod 256" using assms by simp
  have le: "\<not> ps > 255" using assms by (simp add: ps_def)
  obtain rnd e g1 where r: "crand_Read E (ps - 1) g = ((rnd, e), g1)"
    by (metis surj_pair)
  define buf where "buf = ((0 :: byte) # filled (ps - 1) rnd)[0 := of_nat ps]"
  define blk where "blk = (case Padding params of None \<Rightarrow> buf
                           | Some padding \<Rightarrow> hd buf # copy (tl buf) padding)"
  have run: "appendPadding E params self g =
          Inr (self\<lparr>Raw := (Raw self @ blk)[0 := ((Raw self @ blk) ! 0) OR 1]\<rparr>, g1)"
    unfolding appendPadding_def Let_def total_spec_total padSizeLimitLower_def
      padSizeLimitUpper_def if_cancel ps_def [symmetric] blk_def buf_def
    using pos le by (simp only: r if_True if_False split_conv)
  have buf: "buf = of_nat ps # filled (ps - 1) rnd"
    by (simp add: buf_def)
  have "\<exists>tail. blk = of_nat ps # tail \<and> length tail = ps - 1"
    by (simp add: blk_def buf length_filled length_copy split: option.split)
  then obtain tail where blk: "blk = of_nat ps # tail" and len: "length tail = ps - 1"
    by blast
  have "length tail = 255 - spec_total params mod 256"
    using len by (simp add: ps_def)
  then show ?thesis
    using run blk unfolding ps_def by blast
qed

lemma appendPadding_total: "\<exists>msg g'. appendPadding E params self g = Inr (msg, g')"
proof (cases "spec_total params mod 256 = 0")
  case True
  then show ?thesis by (simp add: appendPadding_unpadded)
next
  case False
  from appendPadding_padded [OF False, of E self g] show ?thesis by blast
qed

lemma NewSentMessage_unfold:
  "NewSentMessage E params g =
     (case appendPadding E params
             \<lparr>Raw = [((filled 1 (fst (fst (crand_Read E 1 g))) ! 0)
                        AND NOT paddingMask) AND NOT signatureFlag]\<rparr>
             (snd (crand_Read E 1 g)) of
        Inl p \<Rightarrow> Inl p
      | Inr (msg, g2) \<Rightarrow> Inr (msg\<lparr>Raw := Raw msg @ Payload params\<rparr>, g2))"
  by (simp add: NewSentMessage_def Let_def case_prod_beta)

lemma NewSentMessage_shape:
  "\<exists>flags pad g'.
     NewSentMessage E params g = Inr (\<lparr>Raw = flags # pad @ Payload params\<rparr>, g') \<and>
     length pad = spec_padLength params \<and>
     flags AND signatureFlag = 0 \<and>
     flags AND paddingMask = (if pad = [] then 0 else 1) \<and>
     (pad \<noteq> [] \<longrightarrow> hd pad = of_nat (length pad))"
proof -
  define f0 where "f0 = ((filled 1 (fst (fst (crand_Read E 1 g))) ! 0)
                          AND NOT paddingMask) AND NOT signatureFlag"
  define g1 where "g1 = snd (crand_Read E 1 g)"
  have f0_pad: "f0 AND paddingMask = 0"
    unfolding f0_def by (rule flags_clear_padding)
  have f0_sig: "f0 AND signatureFlag = 0"
    unfolding f0_def by (rule flags_clear_signature)
  have unfold: "NewSentMessage E params g =
     (case appendPadding E params \<lparr>Raw = [f0]\<rparr> g1 of
        Inl p \<Rightarrow> Inl p
      | Inr (msg, g2) \<Rightarrow> Inr (msg\<lparr>Raw := Raw msg @ Payload params\<rparr>, g2))"
    unfolding f0_def g1_def by (rule NewSentMessage_unfold)
  show ?thesis
  proof (cases "spec_total params mod 256 = 0")
    case True
    have "NewSentMessage E params g = Inr (\<lparr>Raw = f0 # [] @ Payload params\<rparr>, g1)"
      by (simp add: unfold appendPadding_unpadded [OF True])
    moreover have "length ([] :: bytes) = spec_padLength params"
      using True by (simp add: spec_padLength_def)
    ultimately show ?thesis
      using f0_pad f0_sig by (intro exI [of _ f0] exI [of _ "[]"] exI [of _ g1]) simp
  next
    case False
    define ps where "ps = 256 - spec_total params mod 256"
    from appendPadding_padded [OF False, of E "\<lparr>Raw = [f0]\<rparr>" g1]
    obtain tail g' where len: "length tail = 255 - spec_total params mod 256"
      and run: "appendPadding E params \<lparr>Raw = [f0]\<rparr> g1 =
                  Inr (\<lparr>Raw = (f0 OR 1) # of_nat ps # tail\<rparr>, g')"
      by (auto simp: ps_def)
    have "NewSentMessage E params g =
            Inr (\<lparr>Raw = (f0 OR 1) # (of_nat ps # tail) @ Payload params\<rparr>, g')"
      by (simp add: unfold run)
    moreover have "length (of_nat ps # tail :: bytes) = spec_padLength params"
      using False len by (simp add: spec_padLength_def ps_def)
    moreover have "length (of_nat ps # tail :: bytes) = ps"
      using False len by (simp add: ps_def)
    moreover have "(f0 OR 1) AND signatureFlag = 0"
      using f0_sig by (simp add: flags_keep_signature)
    moreover have "(f0 OR 1) AND paddingMask = 1"
      using f0_pad by (rule flags_set_padding)
    ultimately show ?thesis
      by (intro exI [of _ "f0 OR 1"] exI [of _ "of_nat ps # tail"] exI [of _ g']) simp
  qed
qed



lemma pad_completes_chunk: "((t::nat) + (256 - t mod 256) mod 256) mod 256 = 0"
proof (cases "t mod 256 = 0")
  case True
  then show ?thesis by simp
next
  case False
  define q r where "q = t div 256" and "r = t mod 256"
  have t: "t = 256 * q + r" by (simp add: q_def r_def)
  have r: "0 < r" "r < 256" using False by (simp_all add: r_def)
  have "t + (256 - r) = 256 * (q + 1)"
    using r unfolding t by simp
  then have "(t + (256 - r)) mod 256 = 0"
    by simp
  moreover have "(256 - r) mod 256 = 256 - r"
    using r by simp
  ultimately show ?thesis by (simp add: r_def)
qed

text \<open>C4. Whatever the parameters and the random source, \<^verbatim>\<open>NewSentMessage\<close> returns a
  buffer made of the flags byte, a padding block and the payload. The block has the
  pad length of the spec. Whenever the block is present (equivalently, the padding bits
  of the flags byte are set), \<open>1 + paddingLen + payloadLen + (65 if Src is set)\<close> is a
  multiple of 256; when the required pad length is zero the block is omitted and the
  padding bits of the flags byte are zero.\<close>

theorem NewSentMessage_padding_law:
  "\<exists>flags pad g'.
     NewSentMessage E params g = Inr (\<lparr>Raw = flags # pad @ Payload params\<rparr>, g') \<and>
     length pad = spec_padLength params \<and>
     isMessagePadded flags = (pad \<noteq> []) \<and>
     (pad \<noteq> [] \<longrightarrow>
        (1 + length pad + length (Payload params)
           + (if Src params \<noteq> None then 65 else 0)) mod 256 = 0) \<and>
     (spec_padLength params = 0 \<longrightarrow> pad = [] \<and> flags AND paddingMask = 0)"
proof -
  from NewSentMessage_shape [of E params g]
  obtain flags pad g' where
    run: "NewSentMessage E params g = Inr (\<lparr>Raw = flags # pad @ Payload params\<rparr>, g')"
    and len: "length pad = spec_padLength params"
    and mask: "flags AND paddingMask = (if pad = [] then 0 else 1)"
    by blast
  have padded: "isMessagePadded flags = (pad \<noteq> [])"
    using mask by (simp add: isMessagePadded_def)
  have law: "(1 + length pad + length (Payload params)
                + (if Src params \<noteq> None then 65 else 0)) mod 256 = 0"
  proof -
    have "1 + length pad + length (Payload params) + (if Src params \<noteq> None then 65 else 0)
            = spec_total params + spec_padLength params"
      by (simp add: len spec_total_def)
    moreover have "(spec_total params + spec_padLength params) mod 256 = 0"
      unfolding spec_padLength_def by (rule pad_completes_chunk)
    ultimately show ?thesis by simp
  qed
  have none: "spec_padLength params = 0 \<longrightarrow> pad = [] \<and> flags AND paddingMask = 0"
  proof
    assume "spec_padLength params = 0"
    with len have "pad = []" by simp
    with mask show "pad = [] \<and> flags AND paddingMask = 0" by simp
  qed
  show ?thesis
    using run len padded law none
    by (intro exI [of _ flags] exI [of _ pad] exI [of _ g']) simp
qed

text \<open>C4, at two inputs: the five-byte payload of scenario S1 gets a block of 250 bytes, and
  a payload of 255 bytes gets none.\<close>

theorem NewSentMessage_padding_law_witness:
  "(\<exists>flags pad g'.
      NewSentMessage demo_ext s1_params 0 = Inr (\<lparr>Raw = flags # pad @ Payload s1_params\<rparr>, g') \<and>
      length pad = 250 \<and> pad \<noteq> [] \<and> isMessagePadded flags \<and>
      (1 + length pad + length (Payload s1_params)
         + (if Src s1_params \<noteq> None then 65 else 0)) mod 256 = 0) \<and>
   (\<exists>flags g'.
      NewSentMessage demo_ext full_params 0 = Inr (\<lparr>Raw = flags # Payload full_params\<rparr>, g') \<and>
      spec_padLength full_params = 0 \<and> flags AND paddingMask = 0)"
proof -
  have a: "spec_padLength s1_params = 250"
    by (simp add: spec_padLength_def spec_total_def s1_params_def)
  have b: "spec_padLength full_params = 0"
    by (simp add: spec_padLength_def spec_total_def s1_params_def full_params_def)
  from NewSentMessage_padding_law [of demo_ext s1_params 0] a
  have first: "\<exists>flags pad g'.
      NewSentMessage demo_ext s1_params 0 = Inr (\<lparr>Raw = flags # pad @ Payload s1_params\<rparr>, g') \<and>
      length pad = 250 \<and> pad \<noteq> [] \<and> isMessagePadded flags \<and>
      (1 + length pad + length (Payload s1_params)
         + (if Src s1_params \<noteq> None then 65 else 0)) mod 256 = 0"
    by (metis length_0_conv zero_neq_numeral)
  from NewSentMessage_padding_law [of demo_ext full_params 0] b
  have second: "\<exists>flags g'.
      NewSentMessage demo_ext full_params 0 = Inr (\<lparr>Raw = flags # Payload full_params\<rparr>, g') \<and>
      spec_padLength full_params = 0 \<and> flags AND paddingMask = 0"
    by auto
  from first second show ?thesis by blast
qed

text \<open>C10. \<^verbatim>\<open>appendPadding\<close> always returns normally, so its \<^verbatim>\<open>panic\<close> branch is never
  taken: the chunk is at most 256, and on the branch where padding is added the
  remainder \<open>odd\<close> is positive, so \<open>padSize = padChunk - odd\<close> is at most 255.\<close>

theorem appendPadding_never_panics:
  "(\<exists>msg g'. appendPadding E params self g = Inr (msg, g')) \<and>
   (let total = length (Payload params) + 1;
        total = (if Src params \<noteq> None then total + signatureLength else total);
        padChunk = (if total \<le> padSizeLimitLower then padSizeLimitLower else padSizeLimitUpper);
        odd = total mod padChunk
    in padChunk \<le> 256 \<and> (odd > 0 \<longrightarrow> padChunk - odd \<le> 255))"
proof -
  have "(let total = length (Payload params) + 1;
        total = (if Src params \<noteq> None then total + signatureLength else total);
        padChunk = (if total \<le> padSizeLimitLower then padSizeLimitLower else padSizeLimitUpper);
        odd = total mod padChunk
    in padChunk \<le> 256 \<and> (odd > 0 \<longrightarrow> padChunk - odd \<le> 255))"
    unfolding Let_def padSizeLimitLower_def padSizeLimitUpper_def if_cancel
    by arith
  with appendPadding_total [of E params self g] show ?thesis by blast
qed

text \<open>C10, at the parameters of scenario S1, where padding is added.\<close>

theorem appendPadding_never_panics_witness:
  "(\<exists>msg g'. appendPadding demo_ext s1_params \<lparr>Raw = [0]\<rparr> 0 = Inr (msg, g')) \<and>
   (let total = length (Payload s1_params) + 1;
        total = (if Src s1_params \<noteq> None then total + signatureLength else total);
        padChunk = (if total \<le> padSizeLimitLower then padSizeLimitLower else padSizeLimitUpper);
        odd = total mod padChunk
    in odd > 0 \<and> padChunk - odd \<le> 255)"
  using appendPadding_never_panics [of demo_ext s1_params "\<lparr>Raw = [0]\<rparr>" 0]
  by (simp add: Let_def s1_params_def padSizeLimitLower_def)

subsection \<open>Padding on the way in\<close>

lemma extractPadding_one_byte:
  assumes raw: "rm_Raw rm = flags # of_nat ps # tail @ rest"
    and sz: "flags AND paddingMask = 1"
    and ps: "0 < ps" "ps < 256"
    and len: "length tail = ps - 1"
    and ends: "int ps + 1 \<le> end"
  shows "extractPadding rm end = Inr ((int ps, True), rm\<lparr>rm_Padding := tail\<rparr>)"
proof -
  have s1: "subslice (rm_Raw rm) 1 (1 + int (unat (1 :: byte))) = Inr [of_nat ps]"
    by (simp add: raw subslice_def)
  have enc: "int (bytesToIntLittleEndian [of_nat ps :: byte]) = int ps"
    using ps by (simp add: unat_byte_of_nat)
  have s2: "subslice (rm_Raw rm) (1 + int (unat (1 :: byte))) (1 + int ps) = Inr tail"
    using ps len by (simp add: raw subslice_def)
  have no: "\<not> (int ps < int (unat (1 :: byte)) \<or> int ps + 1 > end)"
    using ps ends by simp
  have nz: "int (unat (1 :: byte)) \<noteq> 0" by simp
  have "extractPadding rm end =
          (case rm_Raw rm of [] \<Rightarrow> Inl IndexOutOfRange
           | f # _ \<Rightarrow> Inr ((int ps, True), rm\<lparr>rm_Padding := tail\<rparr>))"
    unfolding extractPadding_def Let_def raw list.case sz
    unfolding raw [symmetric] s1 sum.case enc s2
    using no nz by simp
  then show ?thesis by (simp add: raw)
qed

text \<open>C5. Let \<^verbatim>\<open>appendPadding\<close> run on the one-byte buffer that \<^verbatim>\<open>NewSentMessage\<close> hands it
  (the flags byte with its padding bits cleared) and add a non-empty padding block. Then
  \<^verbatim>\<open>extractPadding\<close>, applied to that buffer followed by anything (the payload, the
  signature) and with \<open>end\<close> anywhere behind the block, succeeds and returns the length
  of the block, which is the number \<^verbatim>\<open>appendPadding\<close> wrote little-endian into the first
  \<open>padSizeLen\<close> bytes of the block.\<close>

theorem padding_roundtrip:
  assumes run: "appendPadding E params \<lparr>Raw = [flags]\<rparr> g = Inr (msg, g')"
    and clear: "flags AND paddingMask = 0"
    and block: "1 < length (Raw msg)"
    and buf: "rm_Raw rm = Raw msg @ rest"
    and ends: "int (length (Raw msg)) \<le> end"
  shows "extractPadding rm end =
           Inr ((int (length (Raw msg)) - 1, True), rm\<lparr>rm_Padding := drop 2 (Raw msg)\<rparr>) \<and>
         int (bytesToIntLittleEndian (take (unat (Raw msg ! 0 AND paddingMask)) (drop 1 (Raw msg))))
           = int (length (Raw msg)) - 1"
proof (cases "spec_total params mod 256 = 0")
  case True
  with run block show ?thesis
    by (auto simp: appendPadding_unpadded)
next
  case False
  define ps where "ps = 256 - spec_total params mod 256"
  have ps: "0 < ps" "ps < 256" using False by (simp_all add: ps_def)
  from appendPadding_padded [OF False, of E "\<lparr>Raw = [flags]\<rparr>" g] run
  obtain tail where len: "length tail = ps - 1"
    and msg: "Raw msg = (flags OR 1) # of_nat ps # tail"
    by (auto simp: ps_def)
  have sz: "(flags OR 1) AND paddingMask = 1"
    using clear by (rule flags_set_padding)
  have raw: "rm_Raw rm = (flags OR 1) # of_nat ps # tail @ rest"
    by (simp add: buf msg)
  have size: "length (Raw msg) = ps + 1"
    using ps len by (simp add: msg)
  have "extractPadding rm end = Inr ((int ps, True), rm\<lparr>rm_Padding := tail\<rparr>)"
    using raw sz ps len ends by (intro extractPadding_one_byte) (simp_all add: size)
  moreover have "bytesToIntLittleEndian (take (unat (Raw msg ! 0 AND paddingMask)) (drop 1 (Raw msg))) = ps"
    using ps by (simp add: msg sz unat_byte_of_nat)
  ultimately show ?thesis
    using ps len by (simp add: msg)
qed

text \<open>C5, at the parameters of scenario S1: a block of 250 bytes is written and read back.\<close>

theorem padding_roundtrip_witness:
  "\<exists>msg g'. appendPadding demo_ext s1_params \<lparr>Raw = [0]\<rparr> 0 = Inr (msg, g') \<and>
     (0 :: byte) AND paddingMask = 0 \<and> 1 < length (Raw msg) \<and>
     extractPadding (demo_received\<lparr>rm_Raw := Raw msg @ Payload s1_params\<rparr>) 256 =
       Inr ((250, True),
            demo_received\<lparr>rm_Raw := Raw msg @ Payload s1_params, rm_Padding := drop 2 (Raw msg)\<rparr>)"
proof -
  from appendPadding_padded [of s1_params demo_ext "\<lparr>Raw = [0]\<rparr>" 0]
  obtain msg g' where run: "appendPadding demo_ext s1_params \<lparr>Raw = [0]\<rparr> 0 = Inr (msg, g')"
    and len: "length (Raw msg) = 251"
    by (auto simp: spec_total_def s1_params_def)
  have clear: "(0 :: byte) AND paddingMask = 0" by simp
  have block: "1 < length (Raw msg)" using len by simp
  have buf: "rm_Raw (demo_received\<lparr>rm_Raw := Raw msg @ Payload s1_params\<rparr>)
               = Raw msg @ Payload s1_params" by simp
  have ends: "int (length (Raw msg)) \<le> 256" using len by simp
  from padding_roundtrip [OF run clear block buf ends] run clear block len
  show ?thesis by auto
qed

subsection \<open>Key derivation\<close>

text \<open>C3, as stated, fails: the iteration count handed to PBKDF2 is not 65536. With a
  derivation that records its iteration count, the key returned differs from the one
  65536 iterations give.\<close>

theorem DeriveOneTimeKey_iterations_counterexample:
  "DeriveOneTimeKey demo_ext [1, 2, 3] [4, 5, 6] 0
     \<noteq> (pbkdf2_Key demo_ext [1, 2, 3] [4, 5, 6] 65536 32, None)"
  by (simp add: DeriveOneTimeKey_def aesKeyLength_def demo_ext_def copy_def)

text \<open>C3, amended: for version 0, \<^verbatim>\<open>DeriveOneTimeKey\<close> returns, without error, the
  PBKDF2-SHA256 derivation of the key with the salt, of 32 bytes, computed with 16
  iterations.\<close>

theorem DeriveOneTimeKey_version_0:
  "DeriveOneTimeKey E key salt 0 = (pbkdf2_Key E key salt 16 32, None)"
  by (simp add: DeriveOneTimeKey_def aesKeyLength_def)

subsection \<open>Signing\<close>

lemma sign_after_successful_Sign:
  assumes "Raw self = flags # body" and "\<not> isMessageSigned flags"
    and "crypto_Sign E (crypto_Keccak256 E (Raw self)) key = (signature, None)"
  shows "sign E self key = Inr (None, self)"
  using assms by (simp add: sign_def)

lemma sign_after_failed_Sign:
  assumes "Raw self = flags # body" and "\<not> isMessageSigned flags"
    and "crypto_Sign E (crypto_Keccak256 E (Raw self)) key = (signature, Some e)"
  shows "sign E self key =
           Inr (Some e, self\<lparr>Raw := (flags OR signatureFlag) # body @ signature\<rparr>)"
  using assms by (simp add: sign_def)

text \<open>C1. The code at an unsigned message and a signer that succeeds with a 65-byte
  signature: \<^verbatim>\<open>sign\<close> returns no error, appends nothing and leaves the flags byte as it
  was. The claim asks for the signature appended and the flag set.\<close>

theorem sign_success_appends_nothing:
  "crypto_Sign demo_ext (crypto_Keccak256 demo_ext [0, 104, 105]) demo_key = (replicate 65 1, None) \<and>
   sign demo_ext \<lparr>Raw = [0, 104, 105]\<rparr> demo_key = Inr (None, \<lparr>Raw = [0, 104, 105]\<rparr>)"
  by (simp add: sign_def demo_ext_def isMessageSigned_def signatureFlag_def)

text \<open>C7, as stated, fails: on a message whose signed flag is set, \<^verbatim>\<open>sign\<close> returns a nil
  error.\<close>

theorem sign_already_signed_counterexample:
  "isMessageSigned 4 \<and> sign demo_ext \<lparr>Raw = [4, 104, 105]\<rparr> demo_key = Inr (None, \<lparr>Raw = [4, 104, 105]\<rparr>)"
  by (simp add: sign_def isMessageSigned_def signatureFlag_def)

text \<open>C7, amended: on a message whose signed flag is already set, \<^verbatim>\<open>sign\<close> returns a nil
  error (the source only writes a log line) and leaves the message, and so \<^verbatim>\<open>Raw\<close>,
  unchanged; no second signature is appended.\<close>

theorem sign_already_signed:
  assumes "Raw self = flags # body" and "isMessageSigned flags"
  shows "sign E self key = Inr (None, self)"
  using assms by (simp add: sign_def)

text \<open>C7, amended, at a signed three-byte message, with a signer that would fail if it were
  called.\<close>

theorem sign_already_signed_witness:
  "Raw \<lparr>Raw = [4, 104, 105]\<rparr> = 4 # [104, 105] \<and> isMessageSigned 4 \<and>
   sign demo_ext_sign_fails \<lparr>Raw = [4, 104, 105]\<rparr> demo_key = Inr (None, \<lparr>Raw = [4, 104, 105]\<rparr>)"
proof -
  have r: "Raw \<lparr>Raw = [4, 104, 105]\<rparr> = 4 # [104, 105]" by simp
  have s: "isMessageSigned 4" by (simp add: isMessageSigned_def signatureFlag_def)
  from sign_already_signed [OF r s, of demo_ext_sign_fails demo_key] r s show ?thesis by simp
qed

subsection \<open>Wrapping\<close>

lemma Wrap_neither_no_envelope:
  assumes "Dst options = None" and "KeySym options = None"
    and "Wrap E self options g = Inr ((envelope, err), self', g')"
  shows "envelope = None \<and> err \<noteq> None"
  using assms
  by (auto simp: Wrap_def Let_def split: option.splits sum.splits if_splits prod.splits)

lemma Wrap_neither_unsigned:
  assumes "Dst options = None" and "KeySym options = None" and "Src options = None"
    and "length (Raw self) \<le> msgMaxLength"
  shows "Wrap E self options g = Inr ((None, Some ErrNeitherDstNorKey), self, g)"
  using assms
  by (simp add: Wrap_def Let_def)

lemma Wrap_Dst_unsigned:
  assumes "Dst options = Some dst" and "Src options = None"
    and "length (Raw self) \<le> msgMaxLength"
    and "encryptAsymmetric E self dst g = (None, self', g')"
  shows "Wrap E self options g =
           Inr ((Some (Seal E (NewEnvelope E (if TTL options = 0 then DefaultTTL else TTL options)
                                  (Topic options) [] [] self')
                         (if TTL options = 0 then options\<lparr>TTL := DefaultTTL\<rparr> else options)),
                 None), self', g')"
  using assms
  by (simp add: Wrap_def Let_def)

text \<open>C2, as stated, fails: with both \<^verbatim>\<open>Dst\<close> and \<^verbatim>\<open>KeySym\<close> set, \<^verbatim>\<open>Wrap\<close> returns an
  envelope and a nil error. The message is encrypted under \<^verbatim>\<open>Dst\<close>.\<close>

theorem Wrap_both_set_counterexample:
  "Dst (s1_params\<lparr>Dst := Some (PublicKey 1 2)\<rparr>) \<noteq> None \<and>
   KeySym (s1_params\<lparr>Dst := Some (PublicKey 1 2)\<rparr>) \<noteq> None \<and>
   Wrap demo_ext \<lparr>Raw = [0, 104, 105]\<rparr> (s1_params\<lparr>Dst := Some (PublicKey 1 2)\<rparr>) 0 =
     Inr ((Some (10, 0xDEADBEEF, [], [], [105, 104, 0]), None), \<lparr>Raw = [105, 104, 0]\<rparr>, 0)"
  by (simp add: Wrap_def Let_def s1_params_def demo_ext_def encryptAsymmetric_def msgMaxLength_def)

text \<open>C2, amended. With both \<^verbatim>\<open>Dst\<close> and \<^verbatim>\<open>KeySym\<close> nil, \<^verbatim>\<open>Wrap\<close> never produces an
  envelope and always returns an error; when moreover \<^verbatim>\<open>Src\<close> is nil and the message is
  within \<^verbatim>\<open>msgMaxLength\<close>, that error is the one for the missing key and neither the
  message nor the random source has been touched. With \<^verbatim>\<open>Dst\<close> set, whether or not
  \<^verbatim>\<open>KeySym\<close> is set too, there is no configuration error: \<^verbatim>\<open>Dst\<close> takes precedence, and
  when the asymmetric encryption succeeds the envelope is built from its result (stated
  for an unsigned message within \<^verbatim>\<open>msgMaxLength\<close>).\<close>

theorem Wrap_mode_selection:
  "(Dst options = None \<and> KeySym options = None \<longrightarrow>
      (\<forall>envelope err self' g'.
         Wrap E self options g = Inr ((envelope, err), self', g') \<longrightarrow>
           envelope = None \<and> err \<noteq> None) \<and>
      (Src options = None \<and> length (Raw self) \<le> msgMaxLength \<longrightarrow>
         Wrap E self options g = Inr ((None, Some ErrNeitherDstNorKey), self, g))) \<and>
   (\<forall>dst self' g'.
      Dst options = Some dst \<and> Src options = None \<and> length (Raw self) \<le> msgMaxLength \<and>
      encryptAsymmetric E self dst g = (None, self', g') \<longrightarrow>
        Wrap E self options g =
          Inr ((Some (Seal E (NewEnvelope E (if TTL options = 0 then DefaultTTL else TTL options)
                                 (Topic options) [] [] self')
                        (if TTL options = 0 then options\<lparr>TTL := DefaultTTL\<rparr> else options)),
                None), self', g'))"
  using Wrap_neither_no_envelope [of options E self g]
    Wrap_neither_unsigned [of options self E g]
    Wrap_Dst_unsigned [of options _ self E g]
  by blast

text \<open>C2, amended, at the parameters of scenario S1 with \<^verbatim>\<open>KeySym\<close> removed (neither key),
  and with \<^verbatim>\<open>Dst\<close> added (both keys).\<close>

theorem Wrap_mode_selection_witness:
  "Dst (s1_params\<lparr>KeySym := None\<rparr>) = None \<and> KeySym (s1_params\<lparr>KeySym := None\<rparr>) = None \<and>
   Src (s1_params\<lparr>KeySym := None\<rparr>) = None \<and> length (Raw \<lparr>Raw = [0, 104, 105]\<rparr>) \<le> msgMaxLength \<and>
   Wrap demo_ext \<lparr>Raw = [0, 104, 105]\<rparr> (s1_params\<lparr>KeySym := None\<rparr>) 0 =
     Inr ((None, Some ErrNeitherDstNorKey), \<lparr>Raw = [0, 104, 105]\<rparr>, 0) \<and>
   Dst (s1_params\<lparr>Dst := Some (PublicKey 1 2)\<rparr>) = Some (PublicKey 1 2) \<and>
   KeySym (s1_params\<lparr>Dst := Some (PublicKey 1 2)\<rparr>) \<noteq> None \<and>
   encryptAsymmetric demo_ext \<lparr>Raw = [0, 104, 105]\<rparr> (PublicKey 1 2) 0 =
     (None, \<lparr>Raw = [105, 104, 0]\<rparr>, 0) \<and>
   Wrap demo_ext \<lparr>Raw = [0, 104, 105]\<rparr> (s1_params\<lparr>Dst := Some (PublicKey 1 2)\<rparr>) 0 =
     Inr ((Some (Seal demo_ext (NewEnvelope demo_ext 10 0xDEADBEEF [] [] \<lparr>Raw = [105, 104, 0]\<rparr>)
                   (s1_params\<lparr>Dst := Some (PublicKey 1 2)\<rparr>)), None),
          \<lparr>Raw = [105, 104, 0]\<rparr>, 0)"
proof -
  have h1: "Dst (s1_params\<lparr>KeySym := None\<rparr>) = None \<and> KeySym (s1_params\<lparr>KeySym := None\<rparr>) = None"
    by (simp add: s1_params_def)
  have h2: "Src (s1_params\<lparr>KeySym := None\<rparr>) = None \<and>
            length (Raw \<lparr>Raw = [0, 104, 105]\<rparr>) \<le> msgMaxLength"
    by (simp add: s1_params_def msgMaxLength_def)
  have h3: "Dst (s1_params\<lparr>Dst := Some (PublicKey 1 2)\<rparr>) = Some (PublicKey 1 2) \<and>
            Src (s1_params\<lparr>Dst := Some (PublicKey 1 2)\<rparr>) = None \<and>
            length (Raw \<lparr>Raw = [0, 104, 105]\<rparr>) \<le> msgMaxLength \<and>
            encryptAsymmetric demo_ext \<lparr>Raw = [0, 104, 105]\<rparr> (PublicKey 1 2) 0 =
              (None, \<lparr>Raw = [105, 104, 0]\<rparr>, 0)"
    by (simp add: s1_params_def msgMaxLength_def encryptAsymmetric_def demo_ext_def)
  have h4: "KeySym (s1_params\<lparr>Dst := Some (PublicKey 1 2)\<rparr>) \<noteq> None"
    by (simp add: s1_params_def)
  have t: "TTL (s1_params\<lparr>Dst := Some (PublicKey 1 2)\<rparr>) = 10"
          "Topic (s1_params\<lparr>Dst := Some (PublicKey 1 2)\<rparr>) = 0xDEADBEEF"
    by (simp_all add: s1_params_def)
  from Wrap_mode_selection [of "s1_params\<lparr>KeySym := None\<rparr>" demo_ext "\<lparr>Raw = [0, 104, 105]\<rparr>" 0] h1 h2
  have a: "Wrap demo_ext \<lparr>Raw = [0, 104, 105]\<rparr> (s1_params\<lparr>KeySym := None\<rparr>) 0 =
     Inr ((None, Some ErrNeitherDstNorKey), \<lparr>Raw = [0, 104, 105]\<rparr>, 0)"
    by blast
  from Wrap_mode_selection [of "s1_params\<lparr>Dst := Some (PublicKey 1 2)\<rparr>" demo_ext "\<lparr>Raw = [0, 104, 105]\<rparr>" 0] h3
  have b: "Wrap demo_ext \<lparr>Raw = [0, 104, 105]\<rparr> (s1_params\<lparr>Dst := Some (PublicKey 1 2)\<rparr>) 0 =
     Inr ((Some (Seal demo_ext (NewEnvelope demo_ext 10 0xDEADBEEF [] [] \<lparr>Raw = [105, 104, 0]\<rparr>)
                   (s1_params\<lparr>Dst := Some (PublicKey 1 2)\<rparr>)), None),
          \<lparr>Raw = [105, 104, 0]\<rparr>, 0)"
    unfolding t by auto
  from a b h1 h2 h3 h4 show ?thesis by blast
qed

subsection \<open>Decryption\<close>

lemma decryptSymmetric_cases:
  "decryptSymmetric E self key salt nonce = (Some e, self') \<Longrightarrow> self' = self"
  "decryptSymmetric E self key salt nonce = (None, self') \<Longrightarrow>
     \<exists>block aesgcm decrypted.
        aes_NewCipher E (fst (DeriveOneTimeKey E key salt (rm_EnvelopeVersion self))) = Inr block \<and>
        cipher_NewGCM E block = Inr aesgcm \<and>
        aead_Open E aesgcm nonce (rm_Raw self) = Inr decrypted \<and>
        self' = self\<lparr>rm_Raw := decrypted\<rparr>"
  by (auto simp: decryptSymmetric_def split: prod.splits option.splits sum.splits if_splits)

lemma decryptAsymmetric_cases:
  "decryptAsymmetric E self sk = (Some e, self') \<Longrightarrow> self' = self"
  "decryptAsymmetric E self sk = (None, self') \<Longrightarrow>
     \<exists>decrypted. crypto_Decrypt E sk (rm_Raw self) = Inr decrypted \<and>
        self' = self\<lparr>rm_Raw := decrypted\<rparr>"
  by (auto simp: decryptAsymmetric_def split: sum.splits)

text \<open>C9. When \<^verbatim>\<open>decryptSymmetric\<close> or \<^verbatim>\<open>decryptAsymmetric\<close> returns an error, the message,
  and so its \<^verbatim>\<open>Raw\<close> buffer, is unchanged. When it returns nil, the only change is that
  \<^verbatim>\<open>Raw\<close> holds the plaintext that the decryption primitive returned.\<close>

theorem decrypt_atomic_on_failure:
  "(\<forall>e self'. decryptSymmetric E self key salt nonce = (Some e, self') \<longrightarrow>
       self' = self \<and> rm_Raw self' = rm_Raw self) \<and>
   (\<forall>self'. decryptSymmetric E self key salt nonce = (None, self') \<longrightarrow>
       (\<exists>block aesgcm decrypted.
          aes_NewCipher E (fst (DeriveOneTimeKey E key salt (rm_EnvelopeVersion self))) = Inr block \<and>
          cipher_NewGCM E block = Inr aesgcm \<and>
          aead_Open E aesgcm nonce (rm_Raw self) = Inr decrypted \<and>
          self' = self\<lparr>rm_Raw := decrypted\<rparr>)) \<and>
   (\<forall>e self'. decryptAsymmetric E self sk = (Some e, self') \<longrightarrow>
       self' = self \<and> rm_Raw self' = rm_Raw self) \<and>
   (\<forall>self'. decryptAsymmetric E self sk = (None, self') \<longrightarrow>
       (\<exists>decrypted. crypto_Decrypt E sk (rm_Raw self) = Inr decrypted \<and>
          self' = self\<lparr>rm_Raw := decrypted\<rparr>))"
  using decryptSymmetric_cases [of E self key salt nonce]
    decryptAsymmetric_cases [of E self sk]
  by blast

text \<open>C9, at an empty ciphertext, which both primitives of the concrete environment refuse,
  and at a ciphertext of five bytes, which both decrypt.\<close>

theorem decrypt_atomic_on_failure_witness:
  "decryptSymmetric demo_ext (demo_received\<lparr>rm_Raw := []\<rparr>) [1] [2] (replicate 12 0)
     = (Some (ErrExternal 3), demo_received\<lparr>rm_Raw := []\<rparr>) \<and>
   decryptSymmetric demo_ext demo_received [1] [2] (replicate 12 0)
     = (None, demo_received\<lparr>rm_Raw := [105, 104, 7, 2, 1]\<rparr>) \<and>
   decryptAsymmetric demo_ext (demo_received\<lparr>rm_Raw := []\<rparr>) demo_key
     = (Some (ErrExternal 1), demo_received\<lparr>rm_Raw := []\<rparr>) \<and>
   decryptAsymmetric demo_ext demo_received demo_key
     = (None, demo_received\<lparr>rm_Raw := [105, 104, 7, 2, 1]\<rparr>)"
proof -
  have e1: "decryptSymmetric demo_ext (demo_received\<lparr>rm_Raw := []\<rparr>) [1] [2] (replicate 12 0)
              = (Some (ErrExternal 3), demo_received\<lparr>rm_Raw := []\<rparr>)"
    by (simp add: decryptSymmetric_def DeriveOneTimeKey_def demo_ext_def demo_received_def
        aesKeyLength_def copy_def)
  have e2: "decryptSymmetric demo_ext demo_received [1] [2] (replicate 12 0)
              = (None, demo_received\<lparr>rm_Raw := [105, 104, 7, 2, 1]\<rparr>)"
    by (simp add: decryptSymmetric_def DeriveOneTimeKey_def demo_ext_def demo_received_def
        aesKeyLength_def copy_def)
  have e3: "decryptAsymmetric demo_ext (demo_received\<lparr>rm_Raw := []\<rparr>) demo_key
              = (Some (ErrExternal 1), demo_received\<lparr>rm_Raw := []\<rparr>)"
    by (simp add: decryptAsymmetric_def demo_ext_def demo_received_def)
  have e4: "decryptAsymmetric demo_ext demo_received demo_key
              = (None, demo_received\<lparr>rm_Raw := [105, 104, 7, 2, 1]\<rparr>)"
    by (simp add: decryptAsymmetric_def demo_ext_def demo_received_def)
  from decrypt_atomic_on_failure
         [of demo_ext "demo_received\<lparr>rm_Raw := []\<rparr>" "[1]" "[2]" "replicate 12 0" demo_key]
       decrypt_atomic_on_failure
         [of demo_ext demo_received "[1]" "[2]" "replicate 12 0" demo_key]
       e1 e2 e3 e4
  show ?thesis by blast
qed

subsection \<open>Validation\<close>

lemma extractPadding_rejects:
  assumes raw: "rm_Raw self = flags # body"
    and sz: "unat (flags AND paddingMask) \<noteq> 0"
    and fits: "unat (flags AND paddingMask) \<le> length body"
    and bad: "bytesToIntLittleEndian (take (unat (flags AND paddingMask)) body)
                < unat (flags AND paddingMask)
              \<or> int (bytesToIntLittleEndian (take (unat (flags AND paddingMask)) body)) + 1 > end"
  shows "extractPadding self end = Inr ((0, False), self)"
proof -
  define n where "n = unat (flags AND paddingMask)"
  have n: "n \<noteq> 0" "n \<le> length body"
    using sz fits by (simp_all add: n_def)
  have bad': "int (bytesToIntLittleEndian (take n body)) < int n
              \<or> int (bytesToIntLittleEndian (take n body)) + 1 > end"
    using bad unfolding n_def by (metis of_nat_less_iff)
  have "nat (1 + int n) - nat 1 = n" by simp
  then have s1: "subslice (flags # body) 1 (1 + int n) = Inr (take n body)"
    using n unfolding subslice_def by simp
  show ?thesis
    unfolding extractPadding_def Let_def raw list.case n_def [symmetric] s1 sum.case
    using n bad' by simp
qed

text \<open>Where the \<open>padSizeLen\<close> bytes of the size field lie inside the buffer, \<^verbatim>\<open>Validate\<close>
  rejects an encoded length that is too small or reaches behind \<open>end\<close>.\<close>

lemma Validate_rejects_bad_padding:
  assumes raw: "rm_Raw self = flags # body"
    and sz: "unat (flags AND paddingMask) \<noteq> 0"
    and fits: "unat (flags AND paddingMask) \<le> length body"
    and bad: "bytesToIntLittleEndian (take (unat (flags AND paddingMask)) body)
                < unat (flags AND paddingMask)
              \<or> int (bytesToIntLittleEndian (take (unat (flags AND paddingMask)) body)) + 1
                  > (if isMessageSigned flags
                     then int (length (rm_Raw self)) - int signatureLength
                     else int (length (rm_Raw self)))"
  shows "\<exists>self'. Validate E self = Inr (False, self')"
proof (cases "isMessageSigned flags")
  case False
  from extractPadding_rejects [OF raw sz fits, of "int (length (rm_Raw self))"] bad False
  have "extractPadding self (int (length (rm_Raw self))) = Inr ((0, False), self)"
    by simp
  then show ?thesis
    using False by (simp add: Validate_def Let_def raw)
next
  case True
  define e where "e = int (length (rm_Raw self)) - int signatureLength"
  show ?thesis
  proof (cases "e \<le> 1")
    case short: True
    then show ?thesis
      using True by (simp add: Validate_def Let_def raw e_def)
  next
    case long: False
    define sig where "sig = drop (nat e) (rm_Raw self)"
    define s1 where "s1 = self\<lparr>rm_Signature := sig\<rparr>"
    define s2 where "s2 = s1\<lparr>rm_Src := Recover E s1\<rparr>"
    have sl: "subslice (rm_Raw self) e (int (length (rm_Raw self))) = Inr sig"
      using long by (simp add: subslice_def e_def sig_def signatureLength_def)
    have raw2: "rm_Raw s2 = flags # body" by (simp add: s2_def s1_def raw)
    from extractPadding_rejects [OF raw2 sz fits, of e] bad True
    have x: "extractPadding s2 e = Inr ((0, False), s2)"
      by (simp add: e_def)
    have f: "isMessageSigned (rm_Raw self ! 0)" "\<not> int (length (rm_Raw self)) < 1"
      using True by (simp_all add: raw)
    have "Validate E self = Inr (False, s2)"
    proof (cases "rm_Src s2 = None")
      case True
      show ?thesis
        unfolding Validate_def Let_def e_def [symmetric]
        using f long True
        by (simp add: sl s1_def [symmetric] s2_def [symmetric])
    next
      case False
      show ?thesis
        unfolding Validate_def Let_def e_def [symmetric]
        using f long False
        by (simp add: sl s1_def [symmetric] s2_def [symmetric] x)
    qed
    then show ?thesis by blast
  qed
qed

text \<open>C6. The code at the decrypted buffer that consists of the single byte \<open>0x01\<close>: the
  flags announce a one-byte size field, the buffer ends before it, and both
  \<^verbatim>\<open>extractPadding\<close> and \<^verbatim>\<open>Validate\<close> panic on the slice \<^verbatim>\<open>Raw[1:2]\<close> instead of
  returning failure.\<close>

theorem Validate_short_buffer_panics:
  "length (rm_Raw (demo_received\<lparr>rm_Raw := [1]\<rparr>)) = 1 \<and>
   unat (rm_Raw (demo_received\<lparr>rm_Raw := [1]\<rparr>) ! 0 AND paddingMask) = 1 \<and>
   extractPadding (demo_received\<lparr>rm_Raw := [1]\<rparr>) 1 = Inl IndexOutOfRange \<and>
   Validate demo_ext (demo_received\<lparr>rm_Raw := [1]\<rparr>) = Inl IndexOutOfRange"
  by (simp add: Validate_def extractPadding_def subslice_def isMessageSigned_def
      signatureFlag_def paddingMask_def)

lemma extractPadding_keeps_mode:
  assumes "extractPadding self end = Inr (r, self')"
  shows "rm_TopicKeyHash self' = rm_TopicKeyHash self \<and> rm_Dst self' = rm_Dst self
         \<and> rm_Raw self' = rm_Raw self"
  using assms
  by (auto simp: extractPadding_def Let_def split: list.splits if_splits sum.splits)

text \<open>C8. When \<^verbatim>\<open>Validate\<close> returns true, exactly one of the symmetric mode
  (\<^verbatim>\<open>TopicKeyHash\<close> not zero) and the asymmetric mode (\<^verbatim>\<open>Dst\<close> not nil) holds, of the
  message as it was given and as it is returned.\<close>

theorem Validate_true_exactly_one_mode:
  assumes "Validate E self = Inr (True, self')"
  shows "isSymmetricEncryption self' \<noteq> isAsymmetricEncryption self' \<and>
         (rm_TopicKeyHash self \<noteq> 0) \<noteq> (rm_Dst self \<noteq> None) \<and>
         rm_TopicKeyHash self' = rm_TopicKeyHash self \<and> rm_Dst self' = rm_Dst self"
proof -
  define end0 where "end0 = int (length (rm_Raw self))"
  define checked where "checked =
     (if isMessageSigned (rm_Raw self ! 0) then
        let end = end0 - int signatureLength
        in if end \<le> 1 then Inr (False, end, self)
           else
             case subslice (rm_Raw self) end (int (length (rm_Raw self))) of
               Inl p \<Rightarrow> Inl p
             | Inr sig \<Rightarrow>
                 let self = self\<lparr>rm_Signature := sig\<rparr>;
                     self = self\<lparr>rm_Src := Recover E self\<rparr>
                 in if rm_Src self = None then Inr (False, end, self)
                    else Inr (True, end, self)
      else Inr (True, end0, self))"
  have v: "Validate E self =
     (if end0 < 1 then Inr (False, self)
      else case checked of
                Inl p \<Rightarrow> Inl p
              | Inr (False, end, self) \<Rightarrow> Inr (False, self)
              | Inr (True, end, self) \<Rightarrow>
                  (case extractPadding self end of
                     Inl p \<Rightarrow> Inl p
                   | Inr ((padSize, ok), self) \<Rightarrow>
                       if \<not> ok then Inr (False, self)
                       else
                         (case subslice (rm_Raw self) (1 + padSize) end of
                            Inl p \<Rightarrow> Inl p
                          | Inr payload \<Rightarrow>
                              let self = self\<lparr>rm_Payload := payload\<rparr>
                              in Inr ((isSymmetricEncryption self
                                         \<noteq> isAsymmetricEncryption self), self))))"
    unfolding Validate_def checked_def end0_def Let_def by (rule refl)
  have keep: "rm_TopicKeyHash s1 = rm_TopicKeyHash self \<and> rm_Dst s1 = rm_Dst self"
    if "checked = Inr (b, e, s1)" for b e s1
    using that unfolding checked_def Let_def
    by (auto split: if_splits sum.splits)
  from assms obtain e s1 r s2 payload where
    c: "checked = Inr (True, e, s1)" and
    x: "extractPadding s1 e = Inr (r, s2)" and
    res: "isSymmetricEncryption (s2\<lparr>rm_Payload := payload\<rparr>)
            \<noteq> isAsymmetricEncryption (s2\<lparr>rm_Payload := payload\<rparr>)" and
    s': "self' = s2\<lparr>rm_Payload := payload\<rparr>"
    unfolding v by (auto simp: Let_def split: if_splits sum.splits prod.splits bool.splits)
  from keep [OF c] extractPadding_keeps_mode [OF x] res s'
  show ?thesis
    by (simp add: isSymmetricEncryption_def isAsymmetricEncryption_def)
qed

text \<open>C8, at a symmetric message with one byte of padding behind the size byte and a
  two-byte payload.\<close>

theorem Validate_true_exactly_one_mode_witness:
  "Validate demo_ext demo_received =
     Inr (True, demo_received\<lparr>rm_Padding := [7], rm_Payload := [104, 105]\<rparr>) \<and>
   isSymmetricEncryption demo_received \<and> \<not> isAsymmetricEncryption demo_received"
proof -
  have run: "Validate demo_ext demo_received =
     Inr (True, demo_received\<lparr>rm_Padding := [7], rm_Payload := [104, 105]\<rparr>)"
    by (simp add: Validate_def demo_received_def isMessageSigned_def signatureFlag_def
        extractPadding_def paddingMask_def subslice_def isSymmetricEncryption_def
        isAsymmetricEncryption_def)
  from Validate_true_exactly_one_mode [OF run] run show ?thesis
    by (simp add: isSymmetricEncryption_def isAsymmetricEncryption_def demo_received_def)
qed

end
